theory Spec2Isabelle
  imports Complex_Main "HOL-Library.Log_Nat"
begin

section \<open>Electrolite: request routing, display selection and window geometry\<close>

text \<open>
  The development embeds three pieces of the library:
  \<^item> \<^verbatim>\<open>API.js\<close> (class \<^verbatim>\<open>APIClass\<close>): route registration, query parsing and the
    dispatch pipeline with its middleware loop, together with \<^verbatim>\<open>Window.apply\<close>
    of \<^verbatim>\<open>Window.js\<close>;
  \<^item> \<^verbatim>\<open>Desktop.js\<close> (class \<^verbatim>\<open>DesktopClass\<close>): \<^verbatim>\<open>#getScreenName\<close> and
    \<^verbatim>\<open>#getWindowPosition\<close>;
  \<^item> \<^verbatim>\<open>Screen.js\<close>: the snapshot of one display.
  JavaScript strings are modelled as \<^typ>\<open>string\<close>, objects used as dictionaries as
  maps, arrays as lists, thrown exceptions as values of a sum or of \<open>outcome\<close>.
\<close>

subsection \<open>Strings\<close>

text \<open>
  \<^verbatim>\<open>String.prototype.split\<close> with a separator of one character: the pieces between
  the occurrences of the separator, all of them; the empty string gives one empty piece.
\<close>

fun split :: "char \<Rightarrow> string \<Rightarrow> string list" where
  "split c [] = [[]]"
| "split c (x # xs) =
     (if x = c then [] # split c xs
      else (case split c xs of y # ys \<Rightarrow> (x # y) # ys | [] \<Rightarrow> [[x]]))"

subsection \<open>Values, requests and handlers\<close>

datatype jsval =
    JUndefined
  | JNull
  | JBool bool
  | JNumber int
  | JString string
  | JError string
  | JObject "(string \<times> jsval) list"

text \<open>The HTTP-like verbs of the bridge: the preload script only issues these two.\<close>

datatype verb = Get | Post

fun toUpperCase :: "verb \<Rightarrow> string" where
  "toUpperCase Get = ''GET''"
| "toUpperCase Post = ''POST''"

type_synonym params = "(string \<times> string) list"

record req =
  req_url :: string
  req_method :: string
  req_params :: params
  req_query :: "string \<rightharpoonup> string"
  req_pathname :: string
  req_body :: "jsval option"

text \<open>
  The fields of a record are written with the name of the record in front (\<open>req_url\<close>
  for \<^verbatim>\<open>req.url\<close>, \<open>route_path\<close> for the \<^verbatim>\<open>path\<close> of a route).
\<close>

text \<open>
  What a call of a JavaScript function does is either to return a value or to throw one.
\<close>

datatype outcome = Return jsval | Throw jsval

text \<open>
  A middleware or a handler is a JavaScript function. The pipeline observes of one call:
  the values the function passed to the \<^verbatim>\<open>res\<close> callback it was given, in order, and
  how the call ended. The flag given to the function tells whether callbacks were passed
  at all (the handler of a table without middleware is called with the request only).
  Calls that the function itself makes of the \<^verbatim>\<open>next\<close> function it was handed are
  its own actions and not part of the pipeline.
\<close>

record behaviour =
  responds :: "jsval list"
  finish :: outcome

type_synonym fn = "req \<Rightarrow> bool \<Rightarrow> behaviour"

text \<open>
  A compiled route (\<^verbatim>\<open>new routeParser(route)\<close>) is used only through its
  \<^verbatim>\<open>match\<close>: \<open>None\<close> stands for a falsy result, \<open>Some ps\<close> for the object of the
  extracted parameters.
\<close>

type_synonym matcher = "string \<Rightarrow> params option"

record route =
  route_path :: matcher
  route_callback :: fn

record api =
  routes_get :: "route list"
  routes_post :: "route list"
  routes_middleware :: "fn list"
  hasRoutes :: bool

definition constructor :: api where
  "constructor = \<lparr>routes_get = [], routes_post = [], routes_middleware = [], hasRoutes = False\<rparr>"

fun routes :: "api \<Rightarrow> verb \<Rightarrow> route list" where
  "routes a Get = routes_get a"
| "routes a Post = routes_post a"

subsection \<open>Query parsing: \<^verbatim>\<open>#getRouteAndParams\<close>\<close>

text \<open>
  Assignment \<^verbatim>\<open>query[k] = v\<close> of a string to a property of an object literal. The key
  \<^verbatim>\<open>__proto__\<close> reaches the setter of \<^verbatim>\<open>Object.prototype\<close>, which ignores a value
  that is not an object: no property is created.
\<close>

definition assign :: "(string \<rightharpoonup> string) \<Rightarrow> string \<Rightarrow> string \<Rightarrow> (string \<rightharpoonup> string)" where
  "assign q k v = (if k = ''__proto__'' then q else q(k \<mapsto> v))"

definition addArg :: "string \<Rightarrow> (string \<rightharpoonup> string) \<Rightarrow> (string \<rightharpoonup> string)" where
  "addArg argWithValue q =
     (case split CHR ''='' argWithValue of
        [k, v] \<Rightarrow> assign q k v
      | _ \<Rightarrow> q)"

definition parseQuery :: "string \<Rightarrow> (string \<rightharpoonup> string)" where
  "parseQuery s = fold addArg (split CHR ''&'' s) Map.empty"

definition getRouteAndParams :: "string \<Rightarrow> string \<times> (string \<rightharpoonup> string)" where
  "getRouteAndParams routeWithQueryParams =
     (let routeAndQueryParams = split CHR ''?'' routeWithQueryParams;
          route = hd routeAndQueryParams
      in (route,
          parseQuery (case tl routeAndQueryParams of [] \<Rightarrow> [] | q # _ \<Rightarrow> q)))"

subsection \<open>Registration: \<^verbatim>\<open>use\<close>, \<^verbatim>\<open>get\<close>, \<^verbatim>\<open>post\<close>, \<^verbatim>\<open>throwErrorIfExists\<close>\<close>

text \<open>
  The methods mutate the instance and may throw. A method is modelled as a function to
  the pair of the thrown value, if any, and the instance as the call leaves it.
\<close>

definition use :: "api \<Rightarrow> fn \<Rightarrow> api" where
  "use a middleware = a\<lparr>routes_middleware := routes_middleware a @ [middleware]\<rparr>"

fun methodName :: "verb \<Rightarrow> string" where
  "methodName Get = ''get''"
| "methodName Post = ''post''"

text \<open>
  The loop of \<^verbatim>\<open>throwErrorIfExists\<close> visits every route of the method and raises only
  after the loop. The local \<^verbatim>\<open>isWildcard\<close> of the source is computed and never read.
\<close>

definition throwErrorIfExists :: "api \<Rightarrow> string \<Rightarrow> verb \<Rightarrow> jsval option" where
  "throwErrorIfExists a route m =
     (let exists = fold (\<lambda>routeElement exists.
                           if route_path routeElement route \<noteq> None then True else exists)
                        (routes a m) False
      in if exists
         then Some (JError (''Route ['' @ methodName m @ ''] '' @ route @ '' already exists''))
         else None)"

text \<open>
  \<^verbatim>\<open>lib/route-parser.js\<close> is taken as a parameter of the registration methods: the
  constructor \<open>routeParser\<close> gives the compiled route or throws.
\<close>

type_synonym parser = "string \<Rightarrow> jsval + matcher"

fun push :: "api \<Rightarrow> verb \<Rightarrow> route \<Rightarrow> api" where
  "push a Get r = a\<lparr>routes_get := routes_get a @ [r]\<rparr>"
| "push a Post r = a\<lparr>routes_post := routes_post a @ [r]\<rparr>"

definition register :: "parser \<Rightarrow> verb \<Rightarrow> api \<Rightarrow> string \<Rightarrow> fn \<Rightarrow> jsval option \<times> api" where
  "register routeParser m a route callback =
     (case throwErrorIfExists a route m of
        Some error \<Rightarrow> (Some error, a)
      | None \<Rightarrow>
          (let a' = a\<lparr>hasRoutes := True\<rparr>
           in case routeParser route of
                Inl error \<Rightarrow> (Some error, a')
              | Inr compiled \<Rightarrow> (None, push a' m \<lparr>route_path = compiled, route_callback = callback\<rparr>)))"

definition get :: "parser \<Rightarrow> api \<Rightarrow> string \<Rightarrow> fn \<Rightarrow> jsval option \<times> api" where
  "get routeParser a route callback = register routeParser Get a route callback"

definition post :: "parser \<Rightarrow> api \<Rightarrow> string \<Rightarrow> fn \<Rightarrow> jsval option \<times> api" where
  "post routeParser a route callback = register routeParser Post a route callback"

subsection \<open>Dispatch: \<^verbatim>\<open>getRoute\<close> and the pipeline it builds\<close>

definition request :: "verb \<Rightarrow> string \<Rightarrow> params \<Rightarrow> (string \<rightharpoonup> string) \<Rightarrow> string \<Rightarrow> jsval \<Rightarrow> req" where
  "request m route matchedRoute q routeWithQueryParams values =
     \<lparr>req_url = route, req_method = toUpperCase m, req_params = matchedRoute, req_query = q,
      req_pathname = routeWithQueryParams,
      req_body = (if m = Post then Some values else None)\<rparr>"

text \<open>
  The \<^verbatim>\<open>for await\<close> loop over \<^verbatim>\<open>traceCall\<close>. The argument \<open>cursor\<close> is the position
  in \<^verbatim>\<open>traceCall\<close> of the function the iteration is about to call; the source
  increments its \<^verbatim>\<open>cursor\<close> to hand over \<^verbatim>\<open>traceCall[cursor + 1]\<close> as \<^verbatim>\<open>next\<close>.
  The callback \<^verbatim>\<open>res\<close> sets \<^verbatim>\<open>breakpoint\<close> and stores its argument in
  \<^verbatim>\<open>breakValue\<close>; the flag is read at the head of the following iteration only. The
  last component lists the positions of the functions the loop has called.
\<close>

definition res :: "jsval \<Rightarrow> bool \<times> jsval \<Rightarrow> bool \<times> jsval" where
  "res values st = (True, values)"

fun forAwait :: "fn list \<Rightarrow> req \<Rightarrow> nat \<Rightarrow> bool \<times> jsval \<Rightarrow> jsval \<Rightarrow> nat list \<Rightarrow> outcome \<times> nat list" where
  "forAwait [] r cursor st result called = (Return result, called)"
| "forAwait (middleware # rest) r cursor st result called =
     (if fst st then (Return (snd st), called)
      else (let b = middleware r True;
                st' = fold res (responds b) st
            in case finish b of
                 Throw error \<Rightarrow> (Throw error, called @ [cursor])
               | Return v \<Rightarrow> forAwait rest r (Suc cursor) st' v (called @ [cursor])))"

text \<open>The body of the \<^verbatim>\<open>try\<close> block of the pipeline.\<close>

definition tryBlock :: "api \<Rightarrow> fn \<Rightarrow> req \<Rightarrow> outcome \<times> nat list" where
  "tryBlock a lastCallback r =
     (if length (routes_middleware a) = 0
      then (finish (lastCallback r False), [0])
      else (let traceCall = routes_middleware a @ [lastCallback]
            in forAwait traceCall r 0 (False, JUndefined) JUndefined []))"

text \<open>
  The asynchronous function that \<^verbatim>\<open>getRoute\<close> returns for the route at index \<open>i\<close>:
  the \<^verbatim>\<open>catch\<close> clause logs the thrown value and returns it.
\<close>

definition promise ::
  "api \<Rightarrow> verb \<Rightarrow> nat \<Rightarrow> string \<Rightarrow> params \<Rightarrow> (string \<rightharpoonup> string) \<Rightarrow> string \<Rightarrow> jsval
     \<Rightarrow> outcome \<times> nat list" where
  "promise a m i route matchedRoute q routeWithQueryParams values =
     (let r = request m route matchedRoute q routeWithQueryParams values;
          lastCallback = route_callback (routes a m ! i)
      in case tryBlock a lastCallback r of
           (Throw error, called) \<Rightarrow> (Return error, called)
         | (Return result, called) \<Rightarrow> (Return result, called))"

text \<open>The scan of the routes of a method: it stops at the first route that matches.\<close>

fun scan :: "route list \<Rightarrow> string \<Rightarrow> nat \<Rightarrow> (nat \<times> params) option" where
  "scan [] route i = None"
| "scan (routeElement # rest) route i =
     (case route_path routeElement route of
        Some matchedRoute \<Rightarrow> Some (i, matchedRoute)
      | None \<Rightarrow> scan rest route (Suc i))"

definition getRoute :: "api \<Rightarrow> string \<Rightarrow> verb \<Rightarrow> (jsval \<Rightarrow> outcome \<times> nat list) option" where
  "getRoute a routeWithQueryParams m =
     (case getRouteAndParams routeWithQueryParams of
        (route, q) \<Rightarrow>
          (case scan (routes a m) route 0 of
             None \<Rightarrow> None
           | Some (i, matchedRoute) \<Rightarrow>
               Some (promise a m i route matchedRoute q routeWithQueryParams)))"

subsection \<open>\<^verbatim>\<open>Window.apply\<close>\<close>

text \<open>
  \<^verbatim>\<open>Screen.js\<close>: the snapshot of one display, with the work area that Electron
  reports. The identifier is \<^verbatim>\<open>#<id>-<label>\<close>.
\<close>

record screen =
  screen_primary :: bool
  screen_label :: string
  screen_id :: string
  screen_x :: rat
  screen_y :: rat
  screen_width :: rat
  screen_height :: rat

text \<open>
  The state of \<^verbatim>\<open>DesktopClass\<close> that the modelled methods read: the flag
  \<^verbatim>\<open>hasInit\<close>, the router, the dictionary \<^verbatim>\<open>screens\<close>, the list
  \<^verbatim>\<open>screensOrder\<close> that \<^verbatim>\<open>#detectScreens\<close> fills from left to right, the name
  \<^verbatim>\<open>primary\<close> (absent when there is no display) and the padding of
  \<^verbatim>\<open>defaults.window\<close>.
\<close>

record desktop =
  desktop_API :: api
  hasInit :: bool
  screens :: "string \<rightharpoonup> screen"
  screensOrder :: "string list"
  primary :: "string option"
  defaults_window_padding :: rat

record window =
  window_API :: api
  window_parent :: desktop

definition window_apply :: "window \<Rightarrow> string \<Rightarrow> verb \<Rightarrow> jsval \<Rightarrow> outcome \<times> nat list" where
  "window_apply this route m values =
     (case getRoute (window_API this) route m of
        Some routeElement \<Rightarrow> routeElement values
      | None \<Rightarrow>
          (case getRoute (desktop_API (window_parent this)) route m of
             Some routeElement \<Rightarrow> routeElement values
           | None \<Rightarrow> (Return JUndefined, [])))"

subsection \<open>Numbers\<close>

text \<open>
  A JavaScript number is an IEEE 754 binary64 value: a rational that such a value can
  hold, an infinity or NaN. The sign of zero is not kept: every number of this
  development is compared, added to another or printed by \<^verbatim>\<open>parseInt\<close>, and none of
  these tells the two zeros apart.
\<close>

datatype number = Finite rat | NaN | PosInf | NegInf

text \<open>\<open>ilog2 a\<close> is the integer \<open>e\<close> with \<open>2 ^ e \<le> a < 2 ^ (e + 1)\<close>, for \<open>0 < a\<close>.\<close>

definition ilog2 :: "rat \<Rightarrow> int" where
  "ilog2 a = (if 1 \<le> a then int (floorlog 2 (nat \<lfloor>a\<rfloor>)) - 1
              else - int (floorlog 2 (nat (\<lceil>1 / a\<rceil> - 1))))"

definition roundHalfEven :: "rat \<Rightarrow> int" where
  "roundHalfEven m =
     (let f = \<lfloor>m\<rfloor>; d = m - of_int f
      in if d < 1 / 2 then f else if 1 / 2 < d then f + 1 else if even f then f else f + 1)"

text \<open>
  Rounding of an exact result to binary64, to nearest and ties to even: 53 bits of
  significand, gradual underflow below \<open>2 ^ - 1022\<close>, overflow to an infinity.
\<close>

definition rnd :: "rat \<Rightarrow> number" where
  "rnd q =
     (if q = 0 then Finite 0
      else (let a = \<bar>q\<bar>;
                e = max (ilog2 a) (- 1022);
                u = 2 powi (e - 52);
                y = of_int (roundHalfEven (a / u)) * u
            in if 2 ^ 1024 \<le> y then (if 0 < q then PosInf else NegInf)
               else Finite (if 0 < q then y else - y)))"

fun signum :: "number \<Rightarrow> int" where
  "signum (Finite a) = (if 0 < a then 1 else if a < 0 then - 1 else 0)"
| "signum NaN = 0"
| "signum PosInf = 1"
| "signum NegInf = - 1"

definition infinity :: "int \<Rightarrow> number" where
  "infinity s = (if s = 0 then NaN else if 0 < s then PosInf else NegInf)"

fun js_neg :: "number \<Rightarrow> number" where
  "js_neg (Finite a) = Finite (- a)"
| "js_neg NaN = NaN"
| "js_neg PosInf = NegInf"
| "js_neg NegInf = PosInf"

definition js_add :: "number \<Rightarrow> number \<Rightarrow> number" where
  "js_add x y =
     (case (x, y) of
        (Finite a, Finite b) \<Rightarrow> rnd (a + b)
      | (Finite a, _) \<Rightarrow> y
      | (_, Finite b) \<Rightarrow> x
      | _ \<Rightarrow> if x = y then x else NaN)"

definition js_sub :: "number \<Rightarrow> number \<Rightarrow> number" where
  "js_sub x y = js_add x (js_neg y)"

definition js_mul :: "number \<Rightarrow> number \<Rightarrow> number" where
  "js_mul x y =
     (case (x, y) of
        (Finite a, Finite b) \<Rightarrow> rnd (a * b)
      | _ \<Rightarrow> if x = NaN \<or> y = NaN then NaN else infinity (signum x * signum y))"

text \<open>Division; a zero divisor is taken as the positive zero.\<close>

definition js_div :: "number \<Rightarrow> number \<Rightarrow> number" where
  "js_div x y =
     (case (x, y) of
        (Finite a, Finite b) \<Rightarrow> if b = 0 then infinity (signum x) else rnd (a / b)
      | (Finite a, _) \<Rightarrow> if y = NaN then NaN else Finite 0
      | (_, Finite b) \<Rightarrow> if x = NaN then NaN else infinity (signum x * (if b < 0 then - 1 else 1))
      | _ \<Rightarrow> NaN)"

text \<open>The comparison \<^verbatim>\<open>x > y\<close>: false as soon as one side is NaN.\<close>

definition js_gt :: "number \<Rightarrow> number \<Rightarrow> bool" where
  "js_gt x y =
     (x \<noteq> NaN \<and> y \<noteq> NaN \<and>
      (case (x, y) of
         (Finite a, Finite b) \<Rightarrow> b < a
       | (PosInf, _) \<Rightarrow> y \<noteq> PosInf
       | (_, NegInf) \<Rightarrow> x \<noteq> NegInf
       | _ \<Rightarrow> False))"

fun isInteger :: "number \<Rightarrow> bool" where
  "isInteger (Finite q) = (q = of_int \<lfloor>q\<rfloor>)"
| "isInteger _ = False"

definition truncateToInt :: "rat \<Rightarrow> int" where
  "truncateToInt q = (if 0 \<le> q then \<lfloor>q\<rfloor> else \<lceil>q\<rceil>)"

subsection \<open>Strings to numbers: \<^verbatim>\<open>parseFloat\<close> and \<^verbatim>\<open>parseInt\<close>\<close>

definition isDigit :: "char \<Rightarrow> bool" where
  "isDigit c = (48 \<le> (of_char c :: nat) \<and> (of_char c :: nat) \<le> 57)"

definition digitValue :: "char \<Rightarrow> nat" where
  "digitValue c = of_char c - 48"

definition isHexDigit :: "char \<Rightarrow> bool" where
  "isHexDigit c = (isDigit c \<or> (65 \<le> (of_char c :: nat) \<and> (of_char c :: nat) \<le> 70)
                     \<or> (97 \<le> (of_char c :: nat) \<and> (of_char c :: nat) \<le> 102))"

definition hexDigitValue :: "char \<Rightarrow> nat" where
  "hexDigitValue c =
     (if isDigit c then of_char c - 48
      else if (of_char c :: nat) \<le> 70 then of_char c - 55 else of_char c - 87)"

definition isWhiteSpace :: "char \<Rightarrow> bool" where
  "isWhiteSpace c = ((of_char c :: nat) \<in> {9, 10, 11, 12, 13, 32, 160})"

definition digitsValue :: "string \<Rightarrow> nat" where
  "digitsValue ds = foldl (\<lambda>n c. 10 * n + digitValue c) 0 ds"

definition hexDigitsValue :: "string \<Rightarrow> nat" where
  "hexDigitsValue ds = foldl (\<lambda>n c. 16 * n + hexDigitValue c) 0 ds"

text \<open>
  The exponent part that \<^verbatim>\<open>parseFloat\<close> reads after the digits: \<^verbatim>\<open>e\<close> or \<^verbatim>\<open>E\<close>, a
  sign or none, and at least one digit; anything else is no exponent.
\<close>

definition exponentPart :: "string \<Rightarrow> int" where
  "exponentPart s =
     (case s of
        [] \<Rightarrow> 0
      | c # t \<Rightarrow>
          if c = CHR ''e'' \<or> c = CHR ''E'' then
            (case t of
               [] \<Rightarrow> 0
             | d # t' \<Rightarrow>
                 if d = CHR ''-'' then
                   (if takeWhile isDigit t' = [] then 0 else - int (digitsValue (takeWhile isDigit t')))
                 else if d = CHR ''+'' then int (digitsValue (takeWhile isDigit t'))
                 else int (digitsValue (takeWhile isDigit t)))
          else 0)"

text \<open>
  \<^verbatim>\<open>parseFloat\<close>: leading white space is skipped, then the longest prefix that is a
  decimal literal is read (a sign, \<^verbatim>\<open>Infinity\<close> or digits with an optional fraction
  and exponent); what follows is ignored, and no such prefix gives NaN.
\<close>

definition parseFloat :: "string \<Rightarrow> number" where
  "parseFloat s =
     (let t = dropWhile isWhiteSpace s;
          negative = (t \<noteq> [] \<and> hd t = CHR ''-'');
          u = (if t \<noteq> [] \<and> (hd t = CHR ''-'' \<or> hd t = CHR ''+'') then tl t else t)
      in if take 8 u = ''Infinity'' then (if negative then NegInf else PosInf)
         else (let ip = takeWhile isDigit u;
                   r1 = dropWhile isDigit u;
                   hasDot = (r1 \<noteq> [] \<and> hd r1 = CHR ''.'');
                   fp = (if hasDot then takeWhile isDigit (tl r1) else []);
                   r2 = (if hasDot then dropWhile isDigit (tl r1) else r1)
               in if ip = [] \<and> fp = [] then NaN
                  else (let v = (of_nat (digitsValue ip) + of_nat (digitsValue fp) / 10 ^ length fp)
                                  * 10 powi exponentPart r2
                        in rnd (if negative then - v else v))))"

text \<open>
  \<^verbatim>\<open>parseInt\<close> of a string, without a radix: white space, a sign, then hexadecimal digits
  after \<^verbatim>\<open>0x\<close> and decimal digits otherwise; no digit gives NaN.
\<close>

definition parseInt_string :: "string \<Rightarrow> number" where
  "parseInt_string s =
     (let t = dropWhile isWhiteSpace s;
          negative = (t \<noteq> [] \<and> hd t = CHR ''-'');
          u = (if t \<noteq> [] \<and> (hd t = CHR ''-'' \<or> hd t = CHR ''+'') then tl t else t);
          hex = (take 2 u = ''0x'' \<or> take 2 u = ''0X'');
          ds = (if hex then takeWhile isHexDigit (drop 2 u) else takeWhile isDigit u);
          v = (if hex then hexDigitsValue ds else digitsValue ds)
      in if ds = [] then NaN else rnd (if negative then - of_nat v else of_nat v))"

text \<open>
  \<^verbatim>\<open>parseInt\<close> of a number reads the decimal string of the number. From \<open>10 ^ - 6\<close>
  and below \<open>10 ^ 21\<close> that string is the plain decimal expansion, and the digits before
  the point are the number truncated towards zero. Outside that range the string is in
  exponent notation, \<^verbatim>\<open>d.ddde+n\<close>, and \<^verbatim>\<open>parseInt\<close> reads the one digit \<^verbatim>\<open>d\<close>
  before the point. That digit belongs to the shortest decimal that reads back as the
  same number; it is not computed here but given by the parameter \<open>lead\<close>, applied to
  the magnitude. Infinities and NaN print without a digit.
\<close>

definition parseInt_number :: "(rat \<Rightarrow> int) \<Rightarrow> number \<Rightarrow> number" where
  "parseInt_number lead x =
     (case x of
        Finite q \<Rightarrow>
          if q = 0 then Finite 0
          else if 1 / 10 ^ 6 \<le> \<bar>q\<bar> \<and> \<bar>q\<bar> < 10 ^ 21 then Finite (of_int (truncateToInt q))
          else Finite (of_int (if 0 < q then lead \<bar>q\<bar> else - lead \<bar>q\<bar>))
      | _ \<Rightarrow> NaN)"

subsection \<open>Dictionaries that inherit from \<^verbatim>\<open>Object.prototype\<close>\<close>

text \<open>
  \<^verbatim>\<open>this.screens\<close> and the table \<^verbatim>\<open>positions\<close> are object literals. Reading
  \<^verbatim>\<open>obj[key]\<close> finds the own properties and, failing that, the properties of
  \<^verbatim>\<open>Object.prototype\<close>, all of which are truthy.
\<close>

definition objectPrototypeKeys :: "string list" where
  "objectPrototypeKeys =
     [''constructor'', ''__defineGetter__'', ''__defineSetter__'', ''hasOwnProperty'',
      ''__lookupGetter__'', ''__lookupSetter__'', ''isPrototypeOf'', ''propertyIsEnumerable'',
      ''toString'', ''valueOf'', ''__proto__'', ''toLocaleString'']"

subsection \<open>Display selection: \<^verbatim>\<open>#getScreenName\<close>\<close>

text \<open>The value of the option \<^verbatim>\<open>screen\<close>: absent, a string, or an array of strings.\<close>

datatype pref = PUndefined | PString string | PArray "string list"

fun joinComma :: "string list \<Rightarrow> string" where
  "joinComma [] = []"
| "joinComma [x] = x"
| "joinComma (x # y # r) = x @ '','' @ joinComma (y # r)"

text \<open>The property key that a value becomes between the brackets of \<^verbatim>\<open>obj[value]\<close>.\<close>

fun toPropertyKey :: "pref \<Rightarrow> string" where
  "toPropertyKey PUndefined = ''undefined''"
| "toPropertyKey (PString s) = s"
| "toPropertyKey (PArray xs) = joinComma xs"


definition ofOption :: "string option \<Rightarrow> pref" where
  "ofOption n = (case n of None \<Rightarrow> PUndefined | Some s \<Rightarrow> PString s)"

text \<open>\<^verbatim>\<open>xs[0]\<close>: the first element, or \<^verbatim>\<open>undefined\<close>.\<close>

definition first :: "string list \<Rightarrow> string option" where
  "first xs = (case xs of [] \<Rightarrow> None | x # _ \<Rightarrow> Some x)"

definition failSafe :: "desktop \<Rightarrow> jsval option" where
  "failSafe this = (if \<not> hasInit this then Some (JError ''Desktop must init first'') else None)"


subsection \<open>Window geometry: \<^verbatim>\<open>#getWindowPosition\<close>\<close>

text \<open>
  A field of the placement options: absent, a number or a string. The options read by
  the function are \<^verbatim>\<open>width\<close>, \<^verbatim>\<open>height\<close>, \<^verbatim>\<open>x\<close>, \<^verbatim>\<open>y\<close> and \<^verbatim>\<open>padding\<close>.
\<close>

datatype specval = SUndefined | SNumber number | SString string

record specs =
  specs_width :: specval
  specs_height :: specval
  specs_x :: specval
  specs_y :: specval
  specs_padding :: specval

text \<open>
  After \<^verbatim>\<open>applyProp\<close> no field holds a string any more: the resolved fields are a
  number or absent, and \<^verbatim>\<open>x\<close> and \<^verbatim>\<open>y\<close> are numbers once the origin is added.
\<close>

record geometry =
  geo_width :: "number option"
  geo_height :: "number option"
  geo_x :: number
  geo_y :: number

text \<open>
  What the method takes from its host: the properties \<^verbatim>\<open>width\<close> and \<^verbatim>\<open>height\<close> of
  the identifier \<^verbatim>\<open>screen\<close>, which in \<^verbatim>\<open>Desktop.js\<close> is the module imported from
  Electron, and the leading digit of numbers printed in exponent notation.
\<close>

record host =
  electron_screen_width :: "number option"
  electron_screen_height :: "number option"
  leadingDigit :: "rat \<Rightarrow> int"

text \<open>Operands of arithmetic: \<^verbatim>\<open>undefined\<close> becomes NaN.\<close>

definition toNumber :: "number option \<Rightarrow> number" where
  "toNumber v = (case v of None \<Rightarrow> NaN | Some n \<Rightarrow> n)"

text \<open>
  \<^verbatim>\<open>mainScreen = this.screens[screenName]\<close>: a display, a property inherited from
  \<^verbatim>\<open>Object.prototype\<close> (a function or object without coordinates, whose fields read
  as \<^verbatim>\<open>undefined\<close>) or \<^verbatim>\<open>undefined\<close>.
\<close>

datatype mainscreen = OwnScreen screen | InheritedProperty | NoScreen

definition lookupScreen :: "desktop \<Rightarrow> string \<Rightarrow> mainscreen" where
  "lookupScreen this k =
     (case screens this k of
        Some s \<Rightarrow> OwnScreen s
      | None \<Rightarrow> if k \<in> set objectPrototypeKeys then InheritedProperty else NoScreen)"

fun mainScreen_x :: "mainscreen \<Rightarrow> number" where
  "mainScreen_x (OwnScreen s) = Finite (screen_x s)"
| "mainScreen_x _ = NaN"

fun mainScreen_y :: "mainscreen \<Rightarrow> number" where
  "mainScreen_y (OwnScreen s) = Finite (screen_y s)"
| "mainScreen_y _ = NaN"

fun mainScreen_width :: "mainscreen \<Rightarrow> number" where
  "mainScreen_width (OwnScreen s) = Finite (screen_width s)"
| "mainScreen_width _ = NaN"

fun mainScreen_height :: "mainscreen \<Rightarrow> number" where
  "mainScreen_height (OwnScreen s) = Finite (screen_height s)"
| "mainScreen_height _ = NaN"

text \<open>
  The test \<^verbatim>\<open>str.match(/[0-9]+(\.[0-9]{1,2})?%$/)\<close>. The expression is not anchored on
  the left, so it finds a match exactly when the string ends with a digit and the
  percent sign.
\<close>

definition matchesPercent :: "string \<Rightarrow> bool" where
  "matchesPercent str =
     (case rev str of
        p # d # _ \<Rightarrow> p = CHR ''%'' \<and> isDigit d
      | _ \<Rightarrow> False)"

text \<open>
  The value that \<^verbatim>\<open>translateString\<close> hands to \<^verbatim>\<open>parseInt\<close>: a number, or a value
  that is no number and prints without a leading digit.
\<close>

datatype translated = Num number | NonNumeric

text \<open>
  \<^verbatim>\<open>positions[str]\<close> is truthy for the three own entries and for the inherited
  properties. Called with the origin, the inherited functions give: for
  \<^verbatim>\<open>constructor\<close> the number wrapped in an object, which prints as the number; a
  type error for \<^verbatim>\<open>__defineGetter__\<close>, \<^verbatim>\<open>__defineSetter__\<close> and \<^verbatim>\<open>__proto__\<close>
  (the last is no function); a string, a boolean or \<^verbatim>\<open>undefined\<close> for the others.
\<close>

definition hasPosition :: "string \<Rightarrow> bool" where
  "hasPosition str = (str \<in> {''center'', ''min'', ''max''} \<or> str \<in> set objectPrototypeKeys)"

definition callPosition :: "string \<Rightarrow> number \<Rightarrow> jsval + translated" where
  "callPosition str origin =
     (if str = ''center'' then Inr (Num (js_mul origin (Finite (1 / 2))))
      else if str = ''min'' then Inr (Num (Finite 0))
      else if str = ''max'' then Inr (Num origin)
      else if str = ''constructor'' then Inr (Num origin)
      else if str \<in> {''__defineGetter__'', ''__defineSetter__'', ''__proto__''}
      then Inl (JError ''TypeError'')
      else Inr NonNumeric)"

definition translateString :: "string \<Rightarrow> number \<Rightarrow> bool \<Rightarrow> jsval + translated" where
  "translateString str originValue isSize =
     (if matchesPercent str then
        (let percent = parseFloat str
         in Inr (Num (js_mul originValue (js_div percent (Finite 100)))))
      else if hasPosition str then
        (if isSize
         then Inl (JError ''Values such as center or min are not accepted on with/height'')
         else callPosition str originValue)
      else Inr (Num originValue))"

definition parseInt_translated :: "(rat \<Rightarrow> int) \<Rightarrow> translated \<Rightarrow> number" where
  "parseInt_translated lead t = (case t of Num n \<Rightarrow> parseInt_number lead n | NonNumeric \<Rightarrow> NaN)"

definition parseInt_specval :: "(rat \<Rightarrow> int) \<Rightarrow> specval \<Rightarrow> number" where
  "parseInt_specval lead v =
     (case v of
        SUndefined \<Rightarrow> NaN
      | SNumber n \<Rightarrow> parseInt_number lead n
      | SString s \<Rightarrow> parseInt_string s)"

text \<open>
  \<^verbatim>\<open>applyProp\<close> for one field: only a string is translated, by the function \<open>prop\<close>
  of the field, and the result goes through \<^verbatim>\<open>parseInt\<close>.
\<close>

definition applyProp ::
  "(rat \<Rightarrow> int) \<Rightarrow> (string \<Rightarrow> jsval + translated) \<Rightarrow> specval \<Rightarrow> jsval + number option" where
  "applyProp lead prop v =
     (case v of
        SString s \<Rightarrow>
          (case prop s of
             Inl error \<Rightarrow> Inl error
           | Inr t \<Rightarrow> Inr (Some (parseInt_translated lead t)))
      | SNumber n \<Rightarrow> Inr (Some n)
      | SUndefined \<Rightarrow> Inr None)"

text \<open>
  The two \<^verbatim>\<open>forEach(applyProp)\<close> passes, sizes first, and the translation by the
  origin of the display.
\<close>

definition resolveSpecs :: "(rat \<Rightarrow> int) \<Rightarrow> mainscreen \<Rightarrow> specs \<Rightarrow> jsval + geometry" where
  "resolveSpecs lead mainScreen sp =
     (case applyProp lead (\<lambda>spec. translateString spec (mainScreen_width mainScreen) True)
             (specs_width sp) of
        Inl error \<Rightarrow> Inl error
      | Inr width \<Rightarrow>
     (case applyProp lead (\<lambda>spec. translateString spec (mainScreen_height mainScreen) True)
             (specs_height sp) of
        Inl error \<Rightarrow> Inl error
      | Inr height \<Rightarrow>
     (case applyProp lead
             (\<lambda>spec. translateString spec
                        (js_sub (mainScreen_width mainScreen) (toNumber width)) False)
             (specs_x sp) of
        Inl error \<Rightarrow> Inl error
      | Inr x \<Rightarrow>
     (case applyProp lead
             (\<lambda>spec. translateString spec
                        (js_sub (mainScreen_height mainScreen) (toNumber height)) False)
             (specs_y sp) of
        Inl error \<Rightarrow> Inl error
      | Inr y \<Rightarrow>
          Inr \<lparr>geo_width = width, geo_height = height,
               geo_x = js_add (toNumber x) (mainScreen_x mainScreen),
               geo_y = js_add (toNumber y) (mainScreen_y mainScreen)\<rparr>))))"

text \<open>
  The two lines under \<^verbatim>\<open>// Limit size by padding\<close>. They compare with
  \<^verbatim>\<open>screen.width\<close> and \<^verbatim>\<open>screen.height\<close>, read from the module \<^verbatim>\<open>screen\<close> and not
  from \<^verbatim>\<open>mainScreen\<close>.
\<close>

definition limitByPadding :: "host \<Rightarrow> number \<Rightarrow> geometry \<Rightarrow> geometry" where
  "limitByPadding h padding g =
     (let boundWidth = js_sub (toNumber (electron_screen_width h)) (js_mul padding (Finite 2));
          g1 = (if js_gt (toNumber (geo_width g)) boundWidth
                then g\<lparr>geo_width := Some boundWidth, geo_x := padding\<rparr> else g);
          boundHeight = js_sub (toNumber (electron_screen_height h)) (js_mul padding (Finite 2))
      in if js_gt (toNumber (geo_height g1)) boundHeight
         then g1\<lparr>geo_height := Some boundHeight, geo_y := padding\<rparr> else g1)"

definition getWindowPosition :: "host \<Rightarrow> desktop \<Rightarrow> specs \<Rightarrow> pref \<Rightarrow> jsval + geometry" where
  "getWindowPosition h this sp screenName =
     (case failSafe this of
        Some error \<Rightarrow> Inl error
      | None \<Rightarrow>
          (let name = (if screenName = PUndefined then ofOption (primary this) else screenName);
               mainScreen = lookupScreen this (toPropertyKey name);
               padding =
                 (if isInteger (parseInt_specval (leadingDigit h) (specs_padding sp))
                  then parseInt_specval (leadingDigit h) (specs_padding sp)
                  else Finite (defaults_window_padding this))
           in if mainScreen = NoScreen then Inl (JError ''TypeError'')
              else (case resolveSpecs (leadingDigit h) mainScreen sp of
                      Inl error \<Rightarrow> Inl error
                    | Inr g \<Rightarrow> Inr (limitByPadding h padding g))))"

subsection \<open>The route parser\<close>

text \<open>
  Modelled from the spec: \<^verbatim>\<open>lib/route-parser.js\<close>, the class behind
  \<^verbatim>\<open>new routeParser(route)\<close> and its \<^verbatim>\<open>match\<close>, is not among the sources. The
  specification describes a compiled pattern as a list of segment matchers: a literal
  segment, a segment that binds a name, or a wildcard at the tail.
\<close>

datatype segment = Literal string | Named string | WildcardTail string

text \<open>
  Modelled from the spec: a pattern segment that starts with \<^verbatim>\<open>:\<close> binds under the
  name without the colon; any other segment is literal.
\<close>

definition compileSegment :: "string \<Rightarrow> segment" where
  "compileSegment s = (if s \<noteq> [] \<and> hd s = CHR '':'' then Named (tl s) else Literal s)"

text \<open>
  Modelled from the spec: the pattern is split on \<^verbatim>\<open>/\<close>, and a pattern that ends in
  \<^verbatim>\<open>*\<close> is suffixed by a wildcard. The specification gives \<^verbatim>\<open>/user/*\<close> and
  \<^verbatim>\<open>/p*\<close> as such patterns, the second colliding with the literal \<^verbatim>\<open>/ping\<close>: the
  text of the last segment before the star is kept as a prefix to match.
\<close>

fun compileSegments :: "string list \<Rightarrow> segment list" where
  "compileSegments [] = []"
| "compileSegments [s] =
     (if s \<noteq> [] \<and> last s = CHR ''*'' then [WildcardTail (butlast s)] else [compileSegment s])"
| "compileSegments (s # t # r) = compileSegment s # compileSegments (t # r)"

text \<open>
  Modelled from the spec: a literal segment must equal the segment of the path, a named
  segment binds it, the wildcard matches the rest of the path, zero or more segments,
  once its prefix is matched; without a wildcard the numbers of segments must agree.
\<close>

fun matchSegments :: "segment list \<Rightarrow> string list \<Rightarrow> params option" where
  "matchSegments [] [] = Some []"
| "matchSegments [] (c # cs) = None"
| "matchSegments (WildcardTail pre # ps) [] = (if pre = [] then Some [] else None)"
| "matchSegments (WildcardTail pre # ps) (c # cs) =
     (if take (length pre) c = pre then Some [] else None)"
| "matchSegments (Literal l # ps) [] = None"
| "matchSegments (Literal l # ps) (c # cs) = (if l = c then matchSegments ps cs else None)"
| "matchSegments (Named n # ps) [] = None"
| "matchSegments (Named n # ps) (c # cs) =
     (case matchSegments ps cs of None \<Rightarrow> None | Some bound \<Rightarrow> Some ((n, c) # bound))"

text \<open>
  Modelled from the spec: \<^verbatim>\<open>compile\<close> fails on a malformed pattern, of which the
  specification names the empty string only.
\<close>

definition compile :: "string \<Rightarrow> jsval + segment list" where
  "compile pattern =
     (if pattern = [] then Inl (JError ''InvalidPatternError'')
      else Inr (compileSegments (split CHR ''/'' pattern)))"

text \<open>Modelled from the spec: \<^verbatim>\<open>match\<close> splits the path on \<^verbatim>\<open>/\<close> as well.\<close>

definition match :: "segment list \<Rightarrow> string \<Rightarrow> params option" where
  "match pattern concretePath = matchSegments pattern (split CHR ''/'' concretePath)"

text \<open>
  Modelled from the spec: the constructor \<^verbatim>\<open>new routeParser(route)\<close> as the parser
  that the registration functions take.
\<close>

definition routeParser :: parser where
  "routeParser route = (case compile route of Inl error \<Rightarrow> Inl error | Inr p \<Rightarrow> Inr (match p))"

subsection \<open>The claims in the words of the specification\<close>



text \<open>
  A function of the chain is quiet on a request when it calls no \<^verbatim>\<open>res\<close> and returns.
\<close>

definition quiet :: "req \<Rightarrow> fn \<Rightarrow> bool" where
  "quiet r f \<longleftrightarrow> responds (f r True) = [] \<and> (\<exists>v. finish (f r True) = Return v)"

subsection \<open>Example tables, displays and options\<close>

definition answer :: "jsval \<Rightarrow> fn" where
  "answer v r chained = \<lparr>responds = [], finish = Return v\<rparr>"

definition failing :: "jsval \<Rightarrow> fn" where
  "failing e r chained = \<lparr>responds = [], finish = Throw e\<rparr>"

definition responding :: "jsval \<Rightarrow> fn" where
  "responding v r chained = \<lparr>responds = [v], finish = Return JUndefined\<rparr>"

definition respondingThenFailing :: "jsval \<Rightarrow> jsval \<Rightarrow> fn" where
  "respondingThenFailing v e r chained = \<lparr>responds = [v], finish = Throw e\<rparr>"

definition always :: matcher where
  "always p = Some []"

definition never :: matcher where
  "never p = None"

definition table :: "fn list \<Rightarrow> route list \<Rightarrow> api" where
  "table ms rs = \<lparr>routes_get = rs, routes_post = [], routes_middleware = ms, hasRoutes = True\<rparr>"

definition display :: "string \<Rightarrow> bool \<Rightarrow> rat \<Rightarrow> rat \<Rightarrow> rat \<Rightarrow> rat \<Rightarrow> screen" where
  "display n p x y w h =
     \<lparr>screen_primary = p, screen_label = n, screen_id = n,
      screen_x = x, screen_y = y, screen_width = w, screen_height = h\<rparr>"

definition threeDisplays :: desktop where
  "threeDisplays =
     \<lparr>desktop_API = constructor, hasInit = True,
      screens = [''A'' \<mapsto> display ''A'' False 0 0 1000 800,
                 ''B'' \<mapsto> display ''B'' True 1000 0 1000 800,
                 ''C'' \<mapsto> display ''C'' False 2000 0 1000 800],
      screensOrder = [''A'', ''B'', ''C''],
      primary = Some ''B'',
      defaults_window_padding = 20\<rparr>"

definition oneDisplay :: "rat \<Rightarrow> rat \<Rightarrow> rat \<Rightarrow> rat \<Rightarrow> desktop" where
  "oneDisplay x y w h =
     \<lparr>desktop_API = constructor, hasInit = True,
      screens = [''A'' \<mapsto> display ''A'' True x y w h],
      screensOrder = [''A''],
      primary = Some ''A'',
      defaults_window_padding = 20\<rparr>"

text \<open>
  Electron's module \<^verbatim>\<open>screen\<close> has methods and events but no property \<^verbatim>\<open>width\<close> or
  \<^verbatim>\<open>height\<close>. The digit of the exponent notation plays no part in the examples.
\<close>

definition oneDigit :: "rat \<Rightarrow> int" where
  "oneDigit q = 1"

definition electron :: host where
  "electron = \<lparr>electron_screen_width = None, electron_screen_height = None,
               leadingDigit = oneDigit\<rparr>"

text \<open>Tables for the examples of the dispatch claims.\<close>

definition guardedTable :: api where
  "guardedTable =
     table [responding (JString ''cached''), answer JUndefined]
       [\<lparr>route_path = always, route_callback = answer (JString ''done'')\<rparr>]"

definition deniedTable :: api where
  "deniedTable =
     table [respondingThenFailing (JString ''denied'') (JError ''denied''), answer JUndefined]
       [\<lparr>route_path = always, route_callback = answer (JString ''done'')\<rparr>]"

definition brokenTable :: api where
  "brokenTable =
     table [answer JUndefined]
       [\<lparr>route_path = always, route_callback = failing (JError ''boom'')\<rparr>]"

definition localTable :: api where
  "localTable = table [] [\<lparr>route_path = always, route_callback = answer (JString ''local'')\<rparr>]"

definition globalTable :: api where
  "globalTable = table [] [\<lparr>route_path = always, route_callback = answer (JString ''global'')\<rparr>]"

definition deafTable :: api where
  "deafTable = table [] [\<lparr>route_path = never, route_callback = answer (JString ''deaf'')\<rparr>]"

definition windowOf :: "api \<Rightarrow> api \<Rightarrow> window" where
  "windowOf own global =
     \<lparr>window_API = own, window_parent = threeDisplays\<lparr>desktop_API := global\<rparr>\<rparr>"

definition startsWith :: "string \<Rightarrow> matcher" where
  "startsWith route p = (if take (length route) p = route then Some [] else None)"

definition prefixParser :: parser where
  "prefixParser route = Inr (startsWith route)"

definition twoRoutes :: api where
  "twoRoutes =
     snd (get prefixParser
            (snd (get prefixParser constructor ''/a/b'' (answer (JString ''first''))))
            ''/a'' (answer (JString ''second'')))"

section \<open>Properties\<close>

subsection \<open>Splitting\<close>









subsection \<open>Query parsing\<close>













subsection \<open>The middleware loop\<close>

lemma fold_res: "xs \<noteq> [] \<Longrightarrow> fold res xs st = (True, last xs)"
  by (induction xs arbitrary: st) (auto simp: res_def)

lemma fold_res_fst: "fst (fold res xs st) \<longleftrightarrow> fst st \<or> xs \<noteq> []"
  by (cases "xs = []") (auto simp: fold_res)

lemma forAwait_quiet:
  "\<not> fst st \<Longrightarrow> \<forall>f \<in> set pre. quiet r f \<Longrightarrow>
   \<exists>result'. forAwait (pre @ rest) r c st result called =
     forAwait rest r (c + length pre) st result' (called @ [c..<c + length pre])"
proof (induction pre arbitrary: c result called)
  case Nil
  then show ?case by auto
next
  case (Cons f pre)
  from Cons.prems obtain v where f: "responds (f r True) = []" "finish (f r True) = Return v"
    by (auto simp: quiet_def)
  from Cons.IH[of "Suc c" v "called @ [c]"] Cons.prems
  obtain result' where
    "forAwait (pre @ rest) r (Suc c) st v (called @ [c]) =
       forAwait rest r (Suc c + length pre) st result' ((called @ [c]) @ [Suc c..<Suc c + length pre])"
    by auto
  moreover have "[c..<c + length (f # pre)] = c # [Suc c..<Suc c + length pre]"
    by (simp add: upt_rec)
  ultimately show ?case using Cons.prems(1) f by (auto simp: Let_def)
qed


lemma forAwait_throw:
  "\<not> fst st \<Longrightarrow> finish (f r True) = Throw e \<Longrightarrow>
   forAwait (f # rest) r c st result called = (Throw e, called @ [c])"
  by (auto simp: Let_def)

lemma forAwait_called:
  "k \<in> set (snd (forAwait fs r c st result called)) \<Longrightarrow> k \<notin> set called \<Longrightarrow>
   c \<le> k \<and> k < c + length fs \<and> \<not> fst st \<and> (\<forall>j < k - c. quiet r (fs ! j))"
proof (induction fs arbitrary: c st result called)
  case Nil
  then show ?case by auto
next
  case (Cons f rest)
  have nb: "\<not> fst st" using Cons.prems by (auto split: if_splits)
  show ?case
  proof (cases "k = c")
    case True
    then show ?thesis using nb by auto
  next
    case False
    show ?thesis
    proof (cases "finish (f r True)")
      case (Throw e)
      then show ?thesis using Cons.prems nb False by (auto simp: Let_def)
    next
      case (Return v)
      let ?st = "fold res (responds (f r True)) st"
      have "k \<in> set (snd (forAwait rest r (Suc c) ?st v (called @ [c])))"
        using Cons.prems(1) nb Return by (auto simp: Let_def)
      moreover have "k \<notin> set (called @ [c])" using Cons.prems(2) False by auto
      ultimately have ih: "Suc c \<le> k \<and> k < Suc c + length rest \<and> \<not> fst ?st \<and>
          (\<forall>j < k - Suc c. quiet r (rest ! j))"
        by (rule Cons.IH)
      then have "responds (f r True) = []" by (auto simp: fold_res_fst)
      then have qf: "quiet r f" using Return by (auto simp: quiet_def)
      have "\<forall>j < k - c. quiet r ((f # rest) ! j)"
      proof (intro allI impI)
        fix j assume j: "j < k - c"
        show "quiet r ((f # rest) ! j)"
        proof (cases j)
          case 0
          then show ?thesis using qf by simp
        next
          case (Suc j')
          then have "j' < k - Suc c" using j by auto
          then show ?thesis using ih Suc by auto
        qed
      qed
      then show ?thesis using ih nb by auto
    qed
  qed
qed

lemma forAwait_stop:
  assumes k: "k < length fs"
    and called: "k \<in> set (snd (forAwait fs r 0 (False, bv) result []))"
  shows "\<exists>result'. forAwait fs r 0 (False, bv) result [] =
           forAwait (fs ! k # drop (Suc k) fs) r k (False, bv) result' [0..<k]"
proof -
  from forAwait_called[OF called] have q: "\<forall>j < k. quiet r (fs ! j)" by simp
  have fs: "fs = take k fs @ (fs ! k # drop (Suc k) fs)"
    using k by (simp add: id_take_nth_drop[symmetric])
  have "\<forall>f \<in> set (take k fs). quiet r f"
    using q k by (auto simp: in_set_conv_nth)
  from forAwait_quiet[of "(False, bv)" "take k fs" r "fs ! k # drop (Suc k) fs" 0 result "[]"] this
  obtain result' where
    "forAwait (take k fs @ (fs ! k # drop (Suc k) fs)) r 0 (False, bv) result [] =
     forAwait (fs ! k # drop (Suc k) fs) r (0 + length (take k fs)) (False, bv) result'
       ([] @ [0..<0 + length (take k fs)])"
    by auto
  then show ?thesis using fs k by (auto simp: min_def)
qed

lemma promise_chain:
  "routes_middleware a \<noteq> [] \<Longrightarrow>
   promise a m i route ps q rwq vals =
     (case forAwait (routes_middleware a @ [route_callback (routes a m ! i)])
             (request m route ps q rwq vals) 0 (False, JUndefined) JUndefined [] of
        (Throw error, called) \<Rightarrow> (Return error, called)
      | (Return result, called) \<Rightarrow> (Return result, called))"
  by (simp add: promise_def tryBlock_def Let_def)

lemma promise_direct:
  "routes_middleware a = [] \<Longrightarrow>
   promise a m i route ps q rwq vals =
     (case finish (route_callback (routes a m ! i) (request m route ps q rwq vals) False) of
        Throw error \<Rightarrow> (Return error, [0])
      | Return result \<Rightarrow> (Return result, [0]))"
  by (simp add: promise_def tryBlock_def Let_def split: outcome.splits)

lemma snd_promise:
  "snd (promise a m i route ps q rwq vals) =
     snd (tryBlock a (route_callback (routes a m ! i)) (request m route ps q rwq vals))"
  by (simp add: promise_def Let_def split: prod.splits outcome.splits)

lemma promise_returns: "\<exists>v. fst (promise a m i route ps q rwq vals) = Return v"
  by (simp add: promise_def Let_def split: prod.splits outcome.splits)


subsection \<open>Exceptions\<close>

lemma thrown_is_returned:
  assumes called: "k \<in> set (snd (promise a m i route ps q rwq vals))"
    and thr: "finish (((routes_middleware a @ [route_callback (routes a m ! i)]) ! k)
                (request m route ps q rwq vals) (routes_middleware a \<noteq> [])) = Throw e"
  shows "promise a m i route ps q rwq vals = (Return e, [0..<Suc k])"
proof (cases "routes_middleware a = []")
  case True
  then have "k = 0" using called by (simp add: snd_promise tryBlock_def)
  then show ?thesis using True thr by (simp add: promise_direct)
next
  case False
  let ?ms = "routes_middleware a"
  let ?h = "route_callback (routes a m ! i)"
  let ?r = "request m route ps q rwq vals"
  let ?fs = "?ms @ [?h]"
  have c: "k \<in> set (snd (forAwait ?fs ?r 0 (False, JUndefined) JUndefined []))"
    using called False by (simp add: snd_promise tryBlock_def Let_def)
  from forAwait_called[OF c] have kfs: "k < length ?fs" by simp
  from forAwait_stop[OF kfs c] obtain result' where
    eq: "forAwait ?fs ?r 0 (False, JUndefined) JUndefined [] =
         forAwait (?fs ! k # drop (Suc k) ?fs) ?r k (False, JUndefined) result' [0..<k]"
    by auto
  have "forAwait (?fs ! k # drop (Suc k) ?fs) ?r k (False, JUndefined) result' [0..<k] =
        (Throw e, [0..<k] @ [k])"
    by (rule forAwait_throw) (use thr False in auto)
  then show ?thesis using eq by (simp add: promise_chain[OF False])
qed

lemma window_apply_returns: "\<exists>v. fst (window_apply this rwq m vals) = Return v"
  by (auto simp: window_apply_def getRoute_def promise_returns split: option.splits prod.splits)

text \<open>
  Claim C6. The function that \<^verbatim>\<open>getRoute\<close> hands out always ends by returning a
  value, and so does \<^verbatim>\<open>Window.apply\<close>: no dispatch ends by throwing. When a
  function that the pipeline calls, a middleware or the handler, throws a value, that
  value is what the dispatch returns. The positions are those of the middleware list
  followed by the handler; the flag tells whether the function was called with
  callbacks.
\<close>

theorem dispatch_never_throws:
  "(\<exists>v. fst (promise a m i route ps q rwq vals) = Return v) \<and>
   (\<exists>v. fst (window_apply this rwq m vals) = Return v) \<and>
   (k \<in> set (snd (promise a m i route ps q rwq vals)) \<and>
    finish (((routes_middleware a @ [route_callback (routes a m ! i)]) ! k)
              (request m route ps q rwq vals) (routes_middleware a \<noteq> [])) = Throw e
    \<longrightarrow> fst (promise a m i route ps q rwq vals) = Return e)"
proof (intro conjI impI)
  show "\<exists>v. fst (promise a m i route ps q rwq vals) = Return v"
    by (rule promise_returns)
  show "\<exists>v. fst (window_apply this rwq m vals) = Return v"
    by (rule window_apply_returns)
  show "fst (promise a m i route ps q rwq vals) = Return e"
    if "k \<in> set (snd (promise a m i route ps q rwq vals)) \<and>
        finish (((routes_middleware a @ [route_callback (routes a m ! i)]) ! k)
              (request m route ps q rwq vals) (routes_middleware a \<noteq> [])) = Throw e"
    using thrown_is_returned[of k a m i route ps q rwq vals e] that by simp
qed

lemmas fixture_defs = guardedTable_def deniedTable_def brokenTable_def localTable_def
  globalTable_def deafTable_def windowOf_def table_def answer_def failing_def responding_def
  respondingThenFailing_def always_def never_def

lemmas pipeline_defs = promise_def tryBlock_def request_def res_def Let_def



theorem dispatch_never_throws_witness:
  "1 \<in> set (snd (promise brokenTable Get 0 ''/a'' [] Map.empty ''/a'' JUndefined)) \<and>
   finish (((routes_middleware brokenTable @ [route_callback (routes brokenTable Get ! 0)]) ! 1)
             (request Get ''/a'' [] Map.empty ''/a'' JUndefined) (routes_middleware brokenTable \<noteq> []))
     = Throw (JError ''boom'') \<and>
   fst (promise brokenTable Get 0 ''/a'' [] Map.empty ''/a'' JUndefined) = Return (JError ''boom'')"
proof -
  have a: "1 \<in> set (snd (promise brokenTable Get 0 ''/a'' [] Map.empty ''/a'' JUndefined))"
    by (simp add: fixture_defs pipeline_defs)
  have b: "finish (((routes_middleware brokenTable @ [route_callback (routes brokenTable Get ! 0)]) ! 1)
             (request Get ''/a'' [] Map.empty ''/a'' JUndefined) (routes_middleware brokenTable \<noteq> []))
     = Throw (JError ''boom'')"
    by (simp add: fixture_defs)
  from dispatch_never_throws[of brokenTable Get 0 "''/a''" "[]" Map.empty "''/a''" JUndefined
      "windowOf brokenTable brokenTable" 1 "JError ''boom''"] a b
  have "fst (promise brokenTable Get 0 ''/a'' [] Map.empty ''/a'' JUndefined) = Return (JError ''boom'')"
    by blast
  with a b show ?thesis by blast
qed

subsection \<open>Scanning the routes\<close>

lemma scan_Some_iff:
  "scan rs route c = Some (n, ps) \<longleftrightarrow>
     (\<exists>i. n = c + i \<and> i < length rs \<and> route_path (rs ! i) route = Some ps \<and>
        (\<forall>j < i. route_path (rs ! j) route = None))"
proof (induction rs arbitrary: c)
  case Nil
  then show ?case by simp
next
  case (Cons r rs)
  let ?R = "\<lambda>xs i. i < length xs \<and> route_path (xs ! i) route = Some ps \<and>
        (\<forall>j < i. route_path (xs ! j) route = None)"
  show ?case
  proof (cases "route_path r route")
    case (Some ps')
    have "(\<exists>i. n = c + i \<and> ?R (r # rs) i) \<longleftrightarrow> n = c \<and> ps' = ps"
    proof
      assume "\<exists>i. n = c + i \<and> ?R (r # rs) i"
      then obtain i where i: "n = c + i" "?R (r # rs) i" by blast
      have "i = 0"
      proof (rule ccontr)
        assume "i \<noteq> 0"
        then have "route_path ((r # rs) ! 0) route = None" using i(2) by blast
        then show False using Some by simp
      qed
      then show "n = c \<and> ps' = ps" using i Some by simp
    next
      assume "n = c \<and> ps' = ps"
      then have "n = c + 0 \<and> ?R (r # rs) 0" using Some by simp
      then show "\<exists>i. n = c + i \<and> ?R (r # rs) i" by blast
    qed
    then show ?thesis using Some by auto
  next
    case None
    have "(\<exists>i. n = c + i \<and> ?R (r # rs) i) \<longleftrightarrow> (\<exists>i. n = Suc c + i \<and> ?R rs i)"
    proof
      assume "\<exists>i. n = c + i \<and> ?R (r # rs) i"
      then obtain i where i: "n = c + i" "?R (r # rs) i" by blast
      then have "i \<noteq> 0" using None by (cases i) auto
      then obtain i' where i': "i = Suc i'" by (cases i) auto
      have "\<forall>j < i'. route_path (rs ! j) route = None"
      proof (intro allI impI)
        fix j assume "j < i'"
        then have "Suc j < i" using i' by simp
        then have "route_path ((r # rs) ! Suc j) route = None" using i(2) by blast
        then show "route_path (rs ! j) route = None" by simp
      qed
      then have "n = Suc c + i' \<and> ?R rs i'" using i i' by simp
      then show "\<exists>i. n = Suc c + i \<and> ?R rs i" by blast
    next
      assume "\<exists>i. n = Suc c + i \<and> ?R rs i"
      then obtain i where i: "n = Suc c + i" "?R rs i" by blast
      have "\<forall>j < Suc i. route_path ((r # rs) ! j) route = None"
      proof (intro allI impI)
        fix j assume j: "j < Suc i"
        show "route_path ((r # rs) ! j) route = None"
        proof (cases j)
          case 0
          then show ?thesis using None by simp
        next
          case (Suc j')
          then have "j' < i" using j by simp
          then show ?thesis using i(2) Suc by simp
        qed
      qed
      then have "n = c + Suc i \<and> ?R (r # rs) (Suc i)" using i by simp
      then show "\<exists>i. n = c + i \<and> ?R (r # rs) i" by blast
    qed
    then show ?thesis using None Cons.IH[of "Suc c"] by simp
  qed
qed

lemma scan_None_iff:
  "scan rs route c = None \<longleftrightarrow> (\<forall>rt \<in> set rs. route_path rt route = None)"
  by (induction rs arbitrary: c) (auto split: option.splits)

lemma getRoute_None_iff:
  "getRoute a rwq m = None \<longleftrightarrow>
     (\<forall>rt \<in> set (routes a m). route_path rt (fst (getRouteAndParams rwq)) = None)"
proof -
  obtain route q where rq: "getRouteAndParams rwq = (route, q)" by (cases "getRouteAndParams rwq")
  have "getRoute a rwq m = None \<longleftrightarrow> scan (routes a m) route 0 = None"
    using rq by (auto simp: getRoute_def split: option.splits)
  then show ?thesis using rq by (simp add: scan_None_iff)
qed

lemma getRoute_Some_iff:
  "getRoute a rwq m = Some p \<longleftrightarrow>
     (\<exists>i ps. i < length (routes a m) \<and>
        route_path (routes a m ! i) (fst (getRouteAndParams rwq)) = Some ps \<and>
        (\<forall>j < i. route_path (routes a m ! j) (fst (getRouteAndParams rwq)) = None) \<and>
        p = promise a m i (fst (getRouteAndParams rwq)) ps (snd (getRouteAndParams rwq)) rwq)"
  (is "?L \<longleftrightarrow> ?R")
proof -
  obtain route q where rq: "getRouteAndParams rwq = (route, q)" by (cases "getRouteAndParams rwq")
  show ?thesis
  proof (cases "scan (routes a m) route 0")
    case None
    then have all: "\<forall>rt \<in> set (routes a m). route_path rt route = None"
      by (simp add: scan_None_iff)
    have "\<not> ?L" using None rq by (simp add: getRoute_def)
    moreover have "\<not> ?R"
    proof
      assume ?R
      then obtain i ps where "i < length (routes a m)"
        "route_path (routes a m ! i) route = Some ps" using rq by auto
      then show False using all nth_mem[of i "routes a m"] by auto
    qed
    ultimately show ?thesis by blast
  next
    case (Some np)
    obtain n ps where np: "np = (n, ps)" by (cases np)
    from Some np have sc: "scan (routes a m) route 0 = Some (n, ps)" by simp
    then have s: "n < length (routes a m)" "route_path (routes a m ! n) route = Some ps"
      "\<forall>j < n. route_path (routes a m ! j) route = None"
      unfolding scan_Some_iff by simp_all
    have g: "getRoute a rwq m = Some (promise a m n route ps q rwq)"
      using sc rq by (simp add: getRoute_def)
    show ?thesis
    proof
      assume ?L
      then have "p = promise a m n route ps q rwq" using g by simp
      then have "n < length (routes a m) \<and>
        route_path (routes a m ! n) (fst (getRouteAndParams rwq)) = Some ps \<and>
        (\<forall>j < n. route_path (routes a m ! j) (fst (getRouteAndParams rwq)) = None) \<and>
        p = promise a m n (fst (getRouteAndParams rwq)) ps (snd (getRouteAndParams rwq)) rwq"
        using s rq by simp
      then show ?R by blast
    next
      assume ?R
      then obtain i ps' where i: "i < length (routes a m)"
        "route_path (routes a m ! i) route = Some ps'"
        "\<forall>j < i. route_path (routes a m ! j) route = None"
        "p = promise a m i route ps' q rwq"
        using rq by auto
      have "\<not> i < n" using s(3) i(2) by auto
      moreover have "\<not> n < i" using i(3) s(2) by auto
      ultimately have "i = n" by simp
      then have "ps' = ps" using i(2) s(2) by simp
      then show ?L using g i(4) \<open>i = n\<close> by simp
    qed
  qed
qed



lemma routes_push: "routes (push a m r) m = routes a m @ [r]"
  by (cases m) simp_all

lemma middleware_push: "routes_middleware (push a m r) = routes_middleware a"
  by (cases m) simp_all

lemma register_appends:
  assumes "register rp m a route cb = (None, a')"
  shows "\<exists>compiled. rp route = Inr compiled \<and>
           routes a' m = routes a m @ [\<lparr>route_path = compiled, route_callback = cb\<rparr>] \<and>
           routes_middleware a' = routes_middleware a"
proof (cases "throwErrorIfExists a route m")
  case (Some e)
  then show ?thesis using assms by (simp add: register_def)
next
  case None
  show ?thesis
  proof (cases "rp route")
    case (Inl e)
    then show ?thesis using assms None by (simp add: register_def Let_def)
  next
    case (Inr compiled)
    then have "a' = push (a\<lparr>hasRoutes := True\<rparr>) m \<lparr>route_path = compiled, route_callback = cb\<rparr>"
      using assms None by (simp add: register_def Let_def)
    then show ?thesis using Inr by (cases m) simp_all
  qed
qed

text \<open>
  Claim C9. \<^verbatim>\<open>Window.apply\<close> asks the table of the window first. When a route of
  that table matches, its pipeline gives the result, whatever the parent is. Only when
  none matches is the table of the parent asked, and when none matches there either the
  result is \<^verbatim>\<open>undefined\<close>, returned and not thrown. A table has no match exactly when
  no route of the verb matches the path without its query.
\<close>

theorem window_table_first:
  "(getRoute (window_API this) rwq m = Some p \<longrightarrow>
      window_apply this rwq m vals = p vals \<and>
      window_apply (this\<lparr>window_parent := d\<rparr>) rwq m vals = window_apply this rwq m vals) \<and>
   (getRoute (window_API this) rwq m = None \<and>
    getRoute (desktop_API (window_parent this)) rwq m = Some p' \<longrightarrow>
      window_apply this rwq m vals = p' vals) \<and>
   (getRoute (window_API this) rwq m = None \<and>
    getRoute (desktop_API (window_parent this)) rwq m = None \<longrightarrow>
      window_apply this rwq m vals = (Return JUndefined, [])) \<and>
   (getRoute a rwq m = None \<longleftrightarrow>
      (\<forall>rt \<in> set (routes a m). route_path rt (fst (getRouteAndParams rwq)) = None))"
proof (intro conjI impI)
  show "window_apply this rwq m vals = p vals"
    if "getRoute (window_API this) rwq m = Some p"
    using that by (simp add: window_apply_def)
  show "window_apply (this\<lparr>window_parent := d\<rparr>) rwq m vals = window_apply this rwq m vals"
    if "getRoute (window_API this) rwq m = Some p"
    using that by (simp add: window_apply_def)
  show "window_apply this rwq m vals = p' vals"
    if "getRoute (window_API this) rwq m = None \<and>
        getRoute (desktop_API (window_parent this)) rwq m = Some p'"
    using that by (simp add: window_apply_def)
  show "window_apply this rwq m vals = (Return JUndefined, [])"
    if "getRoute (window_API this) rwq m = None \<and>
        getRoute (desktop_API (window_parent this)) rwq m = None"
    using that by (simp add: window_apply_def)
  show "getRoute a rwq m = None \<longleftrightarrow>
      (\<forall>rt \<in> set (routes a m). route_path rt (fst (getRouteAndParams rwq)) = None)"
    by (rule getRoute_None_iff)
qed

lemma getRoute_local: "getRoute localTable ''/a'' Get = Some (promise localTable Get 0 ''/a'' [] Map.empty ''/a'')"
  by (simp add: getRoute_def getRouteAndParams_def parseQuery_def addArg_def fixture_defs)

lemma getRoute_global: "getRoute globalTable ''/a'' Get = Some (promise globalTable Get 0 ''/a'' [] Map.empty ''/a'')"
  by (simp add: getRoute_def getRouteAndParams_def parseQuery_def addArg_def fixture_defs)

lemma getRoute_deaf: "getRoute deafTable ''/a'' Get = None"
  by (simp add: getRoute_def getRouteAndParams_def parseQuery_def addArg_def fixture_defs)

theorem window_table_first_witness:
  "getRoute (window_API (windowOf localTable globalTable)) ''/a'' Get
     = Some (promise localTable Get 0 ''/a'' [] Map.empty ''/a'') \<and>
   window_apply (windowOf localTable globalTable) ''/a'' Get JUndefined = (Return (JString ''local''), [0]) \<and>
   getRoute (window_API (windowOf deafTable globalTable)) ''/a'' Get = None \<and>
   getRoute (desktop_API (window_parent (windowOf deafTable globalTable))) ''/a'' Get
     = Some (promise globalTable Get 0 ''/a'' [] Map.empty ''/a'') \<and>
   window_apply (windowOf deafTable globalTable) ''/a'' Get JUndefined = (Return (JString ''global''), [0]) \<and>
   getRoute (desktop_API (window_parent (windowOf deafTable deafTable))) ''/a'' Get = None \<and>
   window_apply (windowOf deafTable deafTable) ''/a'' Get JUndefined = (Return JUndefined, [])"
proof -
  have w: "window_API (windowOf x y) = x" "desktop_API (window_parent (windowOf x y)) = y" for x y
    by (simp_all add: windowOf_def)
  have a: "getRoute (window_API (windowOf localTable globalTable)) ''/a'' Get
     = Some (promise localTable Get 0 ''/a'' [] Map.empty ''/a'')"
    by (simp add: w getRoute_local)
  have b: "getRoute (window_API (windowOf deafTable globalTable)) ''/a'' Get = None"
    by (simp add: w getRoute_deaf)
  have c: "getRoute (desktop_API (window_parent (windowOf deafTable globalTable))) ''/a'' Get
     = Some (promise globalTable Get 0 ''/a'' [] Map.empty ''/a'')"
    by (simp add: w getRoute_global)
  have d: "getRoute (window_API (windowOf deafTable deafTable)) ''/a'' Get = None"
    "getRoute (desktop_API (window_parent (windowOf deafTable deafTable))) ''/a'' Get = None"
    by (simp_all add: w getRoute_deaf)
  have pl: "promise localTable Get 0 ''/a'' [] Map.empty ''/a'' JUndefined = (Return (JString ''local''), [0])"
    by (simp add: fixture_defs pipeline_defs)
  have pg: "promise globalTable Get 0 ''/a'' [] Map.empty ''/a'' JUndefined = (Return (JString ''global''), [0])"
    by (simp add: fixture_defs pipeline_defs)
  from window_table_first[of "windowOf localTable globalTable" "''/a''" Get
      "promise localTable Get 0 ''/a'' [] Map.empty ''/a''" JUndefined] a
  have e1: "window_apply (windowOf localTable globalTable) ''/a'' Get JUndefined
      = promise localTable Get 0 ''/a'' [] Map.empty ''/a'' JUndefined"
    by blast
  from window_table_first[of "windowOf deafTable globalTable" "''/a''" Get _ JUndefined _
      "promise globalTable Get 0 ''/a'' [] Map.empty ''/a''"] b c
  have e2: "window_apply (windowOf deafTable globalTable) ''/a'' Get JUndefined
      = promise globalTable Get 0 ''/a'' [] Map.empty ''/a'' JUndefined"
    by blast
  from window_table_first[of "windowOf deafTable deafTable" "''/a''" Get _ JUndefined] d
  have e3: "window_apply (windowOf deafTable deafTable) ''/a'' Get JUndefined = (Return JUndefined, [])"
    by blast
  show ?thesis
    using a b c d(2) e1 e2 e3 pl pg by (simp only: simp_thms)
qed

text \<open>
  Claim C10. \<^verbatim>\<open>getRoute\<close> returns a pipeline exactly when some route of the verb
  matches, and the pipeline is the one of the first matching route in the order of the
  list. A successful registration appends the new route at the end of the list of its
  verb, so the order of the list is the order of registration. The pipeline of index
  \<open>i\<close> runs the callback of the route at index \<open>i\<close>: alone when there is no
  middleware, as the last function of the chain otherwise.
\<close>

theorem earliest_registered_route_wins:
  "(getRoute a rwq m = Some p \<longleftrightarrow>
      (\<exists>i ps. i < length (routes a m) \<and>
         route_path (routes a m ! i) (fst (getRouteAndParams rwq)) = Some ps \<and>
         (\<forall>j < i. route_path (routes a m ! j) (fst (getRouteAndParams rwq)) = None) \<and>
         p = promise a m i (fst (getRouteAndParams rwq)) ps (snd (getRouteAndParams rwq)) rwq)) \<and>
   (register rp m a route cb = (None, a') \<longrightarrow>
      (\<exists>compiled. rp route = Inr compiled \<and>
           routes a' m = routes a m @ [\<lparr>route_path = compiled, route_callback = cb\<rparr>] \<and>
           routes_middleware a' = routes_middleware a)) \<and>
   (routes_middleware a = [] \<longrightarrow>
      promise a m i route ps q rwq vals =
        (case finish (route_callback (routes a m ! i) (request m route ps q rwq vals) False) of
           Throw error \<Rightarrow> (Return error, [0])
         | Return result \<Rightarrow> (Return result, [0]))) \<and>
   (routes_middleware a \<noteq> [] \<longrightarrow>
      promise a m i route ps q rwq vals =
        (case forAwait (routes_middleware a @ [route_callback (routes a m ! i)])
                (request m route ps q rwq vals) 0 (False, JUndefined) JUndefined [] of
           (Throw error, called) \<Rightarrow> (Return error, called)
         | (Return result, called) \<Rightarrow> (Return result, called)))"
proof (intro conjI impI)
  show "getRoute a rwq m = Some p \<longleftrightarrow>
      (\<exists>i ps. i < length (routes a m) \<and>
         route_path (routes a m ! i) (fst (getRouteAndParams rwq)) = Some ps \<and>
         (\<forall>j < i. route_path (routes a m ! j) (fst (getRouteAndParams rwq)) = None) \<and>
         p = promise a m i (fst (getRouteAndParams rwq)) ps (snd (getRouteAndParams rwq)) rwq)"
    by (rule getRoute_Some_iff)
  show "\<exists>compiled. rp route = Inr compiled \<and>
           routes a' m = routes a m @ [\<lparr>route_path = compiled, route_callback = cb\<rparr>] \<and>
           routes_middleware a' = routes_middleware a"
    if "register rp m a route cb = (None, a')"
    using that by (rule register_appends)
  show "promise a m i route ps q rwq vals =
        (case finish (route_callback (routes a m ! i) (request m route ps q rwq vals) False) of
           Throw error \<Rightarrow> (Return error, [0])
         | Return result \<Rightarrow> (Return result, [0]))"
    if "routes_middleware a = []"
    using that by (rule promise_direct)
  show "promise a m i route ps q rwq vals =
        (case forAwait (routes_middleware a @ [route_callback (routes a m ! i)])
                (request m route ps q rwq vals) 0 (False, JUndefined) JUndefined [] of
           (Throw error, called) \<Rightarrow> (Return error, called)
         | (Return result, called) \<Rightarrow> (Return result, called))"
    if "routes_middleware a \<noteq> []"
    using that by (rule promise_chain)
qed

lemma twoRoutes_eq:
  "twoRoutes =
     \<lparr>routes_get = [\<lparr>route_path = startsWith ''/a/b'', route_callback = answer (JString ''first'')\<rparr>,
                     \<lparr>route_path = startsWith ''/a'', route_callback = answer (JString ''second'')\<rparr>],
      routes_post = [], routes_middleware = [], hasRoutes = True\<rparr>"
  by (simp add: twoRoutes_def get_def register_def throwErrorIfExists_def prefixParser_def
      startsWith_def constructor_def Let_def)

theorem earliest_registered_route_wins_witness:
  "register prefixParser Get constructor ''/a/b'' (answer (JString ''first''))
     = (None, snd (get prefixParser constructor ''/a/b'' (answer (JString ''first'')))) \<and>
   routes (snd (get prefixParser constructor ''/a/b'' (answer (JString ''first'')))) Get
     = routes constructor Get @ [\<lparr>route_path = startsWith ''/a/b'', route_callback = answer (JString ''first'')\<rparr>] \<and>
   route_path (routes twoRoutes Get ! 0) ''/a/b/c'' = Some [] \<and>
   route_path (routes twoRoutes Get ! 1) ''/a/b/c'' = Some [] \<and>
   getRoute twoRoutes ''/a/b/c'' Get = Some (promise twoRoutes Get 0 ''/a/b/c'' [] Map.empty ''/a/b/c'') \<and>
   routes_middleware twoRoutes = [] \<and>
   promise twoRoutes Get 0 ''/a/b/c'' [] Map.empty ''/a/b/c'' JUndefined = (Return (JString ''first''), [0])"
proof -
  let ?a1 = "snd (get prefixParser constructor ''/a/b'' (answer (JString ''first'')))"
  have r: "register prefixParser Get constructor ''/a/b'' (answer (JString ''first'')) = (None, ?a1)"
    by (simp add: get_def register_def throwErrorIfExists_def prefixParser_def constructor_def Let_def)
  from earliest_registered_route_wins[where rp = prefixParser and m = Get and a = constructor
      and route = "''/a/b''" and cb = "answer (JString ''first'')" and a' = ?a1] r
  obtain compiled where c: "prefixParser ''/a/b'' = Inr compiled"
    "routes ?a1 Get = routes constructor Get @ [\<lparr>route_path = compiled, route_callback = answer (JString ''first'')\<rparr>]"
    by blast
  have "compiled = startsWith ''/a/b''" using c(1) by (simp add: prefixParser_def)
  then have r1: "routes ?a1 Get = routes constructor Get @
      [\<lparr>route_path = startsWith ''/a/b'', route_callback = answer (JString ''first'')\<rparr>]"
    using c(2) by simp
  have gp: "getRouteAndParams ''/a/b/c'' = (''/a/b/c'', Map.empty)"
    by (simp add: getRouteAndParams_def parseQuery_def addArg_def)
  have m0: "route_path (routes twoRoutes Get ! 0) ''/a/b/c'' = Some []"
    and m1: "route_path (routes twoRoutes Get ! 1) ''/a/b/c'' = Some []"
    and len: "0 < length (routes twoRoutes Get)"
    and nm: "routes_middleware twoRoutes = []"
    by (simp_all add: twoRoutes_eq startsWith_def)
  have "\<exists>i ps. i < length (routes twoRoutes Get) \<and>
         route_path (routes twoRoutes Get ! i) (fst (getRouteAndParams ''/a/b/c'')) = Some ps \<and>
         (\<forall>j < i. route_path (routes twoRoutes Get ! j) (fst (getRouteAndParams ''/a/b/c'')) = None) \<and>
         promise twoRoutes Get 0 ''/a/b/c'' [] Map.empty ''/a/b/c'' =
           promise twoRoutes Get i (fst (getRouteAndParams ''/a/b/c'')) ps
             (snd (getRouteAndParams ''/a/b/c'')) ''/a/b/c''"
    using m0 len gp by (intro exI[of _ 0] exI[of _ "[]"]) simp
  with earliest_registered_route_wins[where a = twoRoutes and rwq = "''/a/b/c''" and m = Get
      and p = "promise twoRoutes Get 0 ''/a/b/c'' [] Map.empty ''/a/b/c''"]
  have g: "getRoute twoRoutes ''/a/b/c'' Get = Some (promise twoRoutes Get 0 ''/a/b/c'' [] Map.empty ''/a/b/c'')"
    by blast
  from earliest_registered_route_wins[where a = twoRoutes and m = Get and i = 0
      and route = "''/a/b/c''" and ps = "[]" and q = Map.empty and rwq = "''/a/b/c''"
      and vals = JUndefined] nm
  have "promise twoRoutes Get 0 ''/a/b/c'' [] Map.empty ''/a/b/c'' JUndefined =
        (case finish (route_callback (routes twoRoutes Get ! 0)
                (request Get ''/a/b/c'' [] Map.empty ''/a/b/c'' JUndefined) False) of
           Throw error \<Rightarrow> (Return error, [0])
         | Return result \<Rightarrow> (Return result, [0]))"
    by blast
  then have p: "promise twoRoutes Get 0 ''/a/b/c'' [] Map.empty ''/a/b/c'' JUndefined
      = (Return (JString ''first''), [0])"
    by (simp add: twoRoutes_eq answer_def)
  show ?thesis
    by (intro conjI) (fact r r1 m0 m1 g nm p)+
qed

subsection \<open>Duplicate routes\<close>


lemmas parser_defs = get_def post_def register_def throwErrorIfExists_def routeParser_def
  compile_def match_def compileSegment_def constructor_def Let_def





lemma p_slash_star_then_ping:
  "fst (get routeParser (snd (get routeParser constructor ''/p/*'' h)) ''/p/ing'' h')
     = Some (JError ''Route [get] /p/ing already exists'')"
  by (simp add: parser_defs)


lemma user_more:
  "match (compileSegments (split CHR ''/'' ''/user/*'')) ''/user'' = Some []"
  "match (compileSegments (split CHR ''/'' ''/user/*'')) ''/users'' = None"
  "match (compileSegments (split CHR ''/'' ''/p*'')) ''/p'' = Some []"
  "match (compileSegments (split CHR ''/'' ''/p*'')) ''/q'' = None"
  by (simp_all add: parser_defs)

lemma user_examples:
  "match (compileSegments (split CHR ''/'' ''/user/:id'')) ''/user/42'' = Some [(''id'', ''42'')]"
  "match (compileSegments (split CHR ''/'' ''/user/:id'')) ''/user/42/extra'' = None"
  "match (compileSegments (split CHR ''/'' ''/user/*'')) ''/user/42/extra'' = Some []"
  by (simp_all add: parser_defs)




subsection \<open>Display selection\<close>

lemma first_filter_None: "first (filter P xs) = None \<longleftrightarrow> (\<forall>x \<in> set xs. \<not> P x)"
  by (induction xs) (auto simp: first_def)










end
